theory Spec2Isabelle
  imports Main "HOL-Library.Word" "HOL-Library.Multiset"
begin

section \<open>Strings and the built-ins that reverseString calls\<close>

text \<open>
  A JavaScript string is a finite sequence of 16-bit code units. \<open>length\<close> and
  indexing count code units, which is what \<open>str.length\<close> and \<open>str[i]\<close> do.
\<close>

type_synonym code_unit = "16 word"
type_synonym jsstring = "code_unit list"

text \<open>
  String literals of the source that are plain ASCII: each character is one code unit
  with the character's code.
\<close>

definition js_literal :: "string \<Rightarrow> jsstring" where
  "js_literal cs = map (\<lambda>c. of_nat (of_char c)) cs"

text \<open>
  \<open>str.split('')\<close>: with the empty separator the result is the array of the code
  units of \<open>str\<close>, each as a string of length one. (The default limit of
  \<open>2^32 - 1\<close> elements is above the longest string an engine can hold, so it never
  cuts the array.)
\<close>

definition split_empty :: "jsstring \<Rightarrow> jsstring list" where
  "split_empty str = map (\<lambda>u. [u]) str"

text \<open>
  \<open>Array.prototype.reverse\<close>: the in-place loop of the language standard. With
  \<open>middle = floor(len / 2)\<close> and \<open>lower\<close> counting up from 0, the elements at
  \<open>lower\<close> and \<open>upper = len - lower - 1\<close> are exchanged until \<open>lower\<close> reaches
  \<open>middle\<close>. The array has no holes (it comes from \<open>split\<close>).
\<close>

function reverse_loop :: "'a list \<Rightarrow> nat \<Rightarrow> 'a list" where
  "reverse_loop arr lower =
     (if lower < length arr div 2
      then reverse_loop
             (arr[lower := arr ! (length arr - lower - 1),
                  length arr - lower - 1 := arr ! lower])
             (lower + 1)
      else arr)"
  by pat_completeness auto
termination
  by (relation "measure (\<lambda>(arr, lower). length arr div 2 - lower)") auto

declare reverse_loop.simps [simp del]

definition array_reverse :: "'a list \<Rightarrow> 'a list" where
  "array_reverse arr = reverse_loop arr 0"

text \<open>
  \<open>Array.prototype.join(sep)\<close>: the accumulating loop of the language standard.
  \<open>R\<close> starts empty; for each index \<open>k\<close> the separator is appended when
  \<open>k > 0\<close>, then the element.
\<close>

function join_loop :: "jsstring \<Rightarrow> jsstring list \<Rightarrow> nat \<Rightarrow> jsstring \<Rightarrow> jsstring" where
  "join_loop sep arr k R =
     (if k < length arr
      then join_loop sep arr (k + 1) ((if 0 < k then R @ sep else R) @ arr ! k)
      else R)"
  by pat_completeness auto
termination
  by (relation "measure (\<lambda>(sep, arr, k, R). length arr - k)") auto

declare join_loop.simps [simp del]

definition array_join :: "jsstring list \<Rightarrow> jsstring \<Rightarrow> jsstring" where
  "array_join arr sep = join_loop sep arr 0 []"

subsection \<open>reverseString\<close>

text \<open>
  \<^verbatim>\<open>reverseString(str) { return str.split('').reverse().join(''); }\<close>
\<close>

definition reverseString :: "jsstring \<Rightarrow> jsstring" where
  "reverseString str = array_join (array_reverse (split_empty str)) []"

subsection \<open>Code points\<close>

text \<open>
  How the language reads code points out of code units: a leading surrogate
  (\<open>0xD800..0xDBFF\<close>) directly followed by a trailing surrogate
  (\<open>0xDC00..0xDFFF\<close>) is one code point above \<open>0xFFFF\<close>; every other code unit,
  an unpaired surrogate included, is a code point by itself.
\<close>

definition is_leading_surrogate :: "code_unit \<Rightarrow> bool" where
  "is_leading_surrogate u = (0xD800 \<le> u \<and> u \<le> 0xDBFF)"

definition is_trailing_surrogate :: "code_unit \<Rightarrow> bool" where
  "is_trailing_surrogate u = (0xDC00 \<le> u \<and> u \<le> 0xDFFF)"

definition surrogate_pair_to_code_point :: "code_unit \<Rightarrow> code_unit \<Rightarrow> nat" where
  "surrogate_pair_to_code_point lead trail =
     (unat lead - 0xD800) * 0x400 + (unat trail - 0xDC00) + 0x10000"

fun string_to_code_points :: "jsstring \<Rightarrow> nat list" where
  "string_to_code_points [] = []"
| "string_to_code_points [u] = [unat u]"
| "string_to_code_points (u # v # rest) =
     (if is_leading_surrogate u \<and> is_trailing_surrogate v
      then surrogate_pair_to_code_point u v # string_to_code_points rest
      else unat u # string_to_code_points (v # rest))"

subsection \<open>trim\<close>

text \<open>
  \<open>String.prototype.trim\<close> removes white space and line terminators from both
  ends. These are the code units the language standard lists: TAB, LF, VT, FF, CR,
  SPACE, NBSP, the space separators \<open>U+1680\<close>, \<open>U+2000..U+200A\<close>, \<open>U+202F\<close>,
  \<open>U+205F\<close>, \<open>U+3000\<close>, the line and paragraph separators \<open>U+2028\<close>,
  \<open>U+2029\<close>, and the byte order mark \<open>U+FEFF\<close>.
\<close>

definition is_white_space :: "code_unit \<Rightarrow> bool" where
  "is_white_space u =
     ((0x0009 \<le> u \<and> u \<le> 0x000D) \<or> u = 0x0020 \<or> u = 0x00A0 \<or> u = 0x1680 \<or>
      (0x2000 \<le> u \<and> u \<le> 0x200A) \<or> u = 0x2028 \<or> u = 0x2029 \<or> u = 0x202F \<or>
      u = 0x205F \<or> u = 0x3000 \<or> u = 0xFEFF)"

definition trim :: "jsstring \<Rightarrow> jsstring" where
  "trim str = rev (dropWhile is_white_space (rev (dropWhile is_white_space str)))"

section \<open>The page: class TextInverter\<close>

text \<open>
  The state is what the methods of \<open>TextInverter\<close> read and write: the properties of
  the seven elements the constructor looks up, the \<open>data-theme\<close> attribute of the
  document element, the \<open>theme-color\<close> meta element, the element that has the focus,
  the \<open>.message\<close> element, the pending \<open>setTimeout\<close> callbacks, \<open>localStorage\<close>
  and the host's \<open>prefers-color-scheme\<close> media query. All seven elements exist
  (every \<open>getElementById\<close> of the constructor finds its element), so no property
  access on them throws. The styling that \<open>showMessage\<close> and \<open>updateCharCount\<close> set (position, colours,
  the fade animation) is not part of the state.

  \<open>engine_calls\<close> is a trace: the arguments \<open>reverseString\<close> has been called with,
  oldest first. No method reads it.
\<close>

datatype element = InputText | ResultText

text \<open>The second argument of \<open>showMessage\<close>: 'success', 'warning', 'error', 'info'.\<close>

datatype msg_type = MsgSuccess | MsgWarning | MsgError | MsgInfo

text \<open>
  The first argument of \<open>showMessage\<close>, one constructor for each message of the source
  (written here without accents and inverted exclamation marks):
  \<^item> \<open>EnterSomeText\<close>: 'Por favor, ingresa algun texto para invertir.'
  \<^item> \<open>TextInverted\<close>: 'Texto invertido correctamente!'
  \<^item> \<open>InvertFailed\<close>: 'Ha ocurrido un error al invertir el texto.'
  \<^item> \<open>FieldsCleared\<close>: 'Campos limpiados correctamente.'
  \<^item> \<open>NothingToCopy\<close>: 'No hay texto que copiar.'
  \<^item> \<open>TextCopied\<close>: 'Texto copiado al portapapeles!'
  \<^item> \<open>CopyFailed\<close>: 'Error al copiar el texto.'
  \<^item> \<open>ModeActivated m\<close>: 'Modo m activado', with \<open>m\<close> 'oscuro' or 'claro'.
\<close>

datatype msg_text =
    EnterSomeText | TextInverted | InvertFailed | FieldsCleared
  | NothingToCopy | TextCopied | CopyFailed | ModeActivated string

text \<open>
  The callbacks handed to \<open>setTimeout\<close>, with what they close over: the callback of
  \<open>invertText\<close> (the trimmed text), and the two of \<open>showMessage\<close> (the message
  element, named by its number).
\<close>

datatype callback = InvertTimeout jsstring | MessageFadeOut nat | MessageRemove nat

record app =
  inputText_value :: jsstring
  resultText_value :: jsstring
  invertButton_disabled :: bool
  invertButton_loading :: bool
  invertButton_aria_label :: string
  clearButton_disabled :: bool
  copyButton_disabled :: bool
  currentCount_textContent :: nat
  themeToggle_aria_label :: string
  data_theme :: "string option"
  meta_theme_color :: "string option"
  focused :: "element option"
  shown_message :: "(nat \<times> msg_text \<times> msg_type) option"
  next_message :: nat
  timers :: "(nat \<times> callback) list"
  localStorage :: "string \<rightharpoonup> string"
  matchMedia_dark :: "bool option"
  engine_calls :: "jsstring list"

text \<open>
  \<open>matchMedia_dark\<close> is \<open>None\<close> when \<open>window.matchMedia\<close> does not exist, and
  otherwise \<open>Some\<close> of \<open>matchMedia('(prefers-color-scheme: dark)').matches\<close>.
\<close>

subsection \<open>Notifications and timers\<close>

definition setTimeout :: "callback \<Rightarrow> nat \<Rightarrow> app \<Rightarrow> app" where
  "setTimeout cb delay s = s\<lparr>timers := timers s @ [(delay, cb)]\<rparr>"

text \<open>
  \<open>showMessage(message, type)\<close>: the message on display is removed, a new element is
  created and appended, and its removal is scheduled 3000 ms later.
\<close>

definition showMessage :: "msg_text \<Rightarrow> msg_type \<Rightarrow> app \<Rightarrow> app" where
  "showMessage message ty s =
     setTimeout (MessageFadeOut (next_message s)) 3000
       (s\<lparr>shown_message := Some (next_message s, message, ty),
          next_message := next_message s + 1\<rparr>)"

definition focus :: "element \<Rightarrow> app \<Rightarrow> app" where
  "focus el s = s\<lparr>focused := Some el\<rparr>"

subsection \<open>Theme\<close>

text \<open>
  \<^verbatim>\<open>updateThemeColor(theme)\<close>: the meta element is created when it is missing; its
  content is '#1e293b' for 'dark' and '#ffffff' for anything else.
\<close>

definition updateThemeColor :: "string \<Rightarrow> app \<Rightarrow> app" where
  "updateThemeColor theme s =
     s\<lparr>meta_theme_color := Some (if theme = ''dark'' then ''#1e293b'' else ''#ffffff'')\<rparr>"

definition applyTheme :: "string \<Rightarrow> app \<Rightarrow> app" where
  "applyTheme theme s =
     updateThemeColor theme
       (s\<lparr>data_theme := Some theme,
          themeToggle_aria_label :=
            (if theme = ''dark'' then ''Cambiar a modo claro'' else ''Cambiar a modo oscuro'')\<rparr>)"

text \<open>
  \<^verbatim>\<open>const savedTheme = localStorage.getItem('theme-preference');
const systemPrefersDark = window.matchMedia && window.matchMedia('(prefers-color-scheme: dark)').matches;
const theme = savedTheme || (systemPrefersDark ? 'dark' : 'light');\<close>
  \<open>getItem\<close> gives \<open>null\<close> for a missing key; \<open>null\<close> and the empty string are
  falsy, every other string is truthy.
\<close>

definition systemPrefersDark :: "app \<Rightarrow> bool" where
  "systemPrefersDark s = (case matchMedia_dark s of None \<Rightarrow> False | Some m \<Rightarrow> m)"

definition initializeTheme :: "app \<Rightarrow> app" where
  "initializeTheme s =
     (let theme =
        (case localStorage s ''theme-preference'' of
           None \<Rightarrow> (if systemPrefersDark s then ''dark'' else ''light'')
         | Some savedTheme \<Rightarrow>
             (if savedTheme \<noteq> [] then savedTheme
              else (if systemPrefersDark s then ''dark'' else ''light'')))
      in applyTheme theme s)"

text \<open>
  \<^verbatim>\<open>const currentTheme = document.documentElement.getAttribute('data-theme') || 'light';
const newTheme = currentTheme === 'light' ? 'dark' : 'light';\<close>
\<close>

definition toggleTheme :: "app \<Rightarrow> app" where
  "toggleTheme s =
     (let currentTheme =
        (case data_theme s of
           None \<Rightarrow> ''light''
         | Some a \<Rightarrow> (if a \<noteq> [] then a else ''light''));
          newTheme = (if currentTheme = ''light'' then ''dark'' else ''light'');
          s1 = applyTheme newTheme s;
          s2 = s1\<lparr>localStorage := (localStorage s1)(''theme-preference'' \<mapsto> newTheme)\<rparr>
      in showMessage (ModeActivated (if newTheme = ''dark'' then ''oscuro'' else ''claro''))
           MsgSuccess s2)"

text \<open>
  The listener for a change of the system preference, registered only when
  \<open>window.matchMedia\<close> exists. \<open>matches\<close> is the new value of the media query.
\<close>

definition systemThemeChanged :: "bool \<Rightarrow> app \<Rightarrow> app" where
  "systemThemeChanged matches s =
     (case matchMedia_dark s of
        None \<Rightarrow> s
      | Some _ \<Rightarrow>
          (let s1 = s\<lparr>matchMedia_dark := Some matches\<rparr>
           in (case localStorage s1 ''theme-preference'' of
                 None \<Rightarrow> applyTheme (if matches then ''dark'' else ''light'') s1
               | Some saved \<Rightarrow>
                   (if saved = [] then applyTheme (if matches then ''dark'' else ''light'') s1
                    else s1))))"

subsection \<open>Counter and buttons\<close>

definition updateCharCount :: "app \<Rightarrow> app" where
  "updateCharCount s = s\<lparr>currentCount_textContent := length (inputText_value s)\<rparr>"

definition updateButtonStates :: "app \<Rightarrow> app" where
  "updateButtonStates s =
     (let hasInputText = (0 < length (trim (inputText_value s)));
          hasResultText = (0 < length (resultText_value s))
      in s\<lparr>invertButton_disabled := \<not> hasInputText,
           copyButton_disabled := \<not> hasResultText,
           clearButton_disabled := (\<not> hasInputText \<and> \<not> hasResultText)\<rparr>)"

definition setLoadingState :: "bool \<Rightarrow> app \<Rightarrow> app" where
  "setLoadingState loading s =
     (if loading
      then s\<lparr>invertButton_disabled := True, invertButton_loading := True,
             invertButton_aria_label := ''Invirtiendo texto...''\<rparr>
      else s\<lparr>invertButton_disabled := False, invertButton_loading := False,
             invertButton_aria_label := ''Invertir texto''\<rparr>)"

subsection \<open>invertText\<close>

text \<open>
  The body of the callback that \<open>invertText\<close> hands to \<open>setTimeout\<close>; \<open>text\<close> is
  the variable of \<open>invertText\<close> it closes over.
\<close>

definition invertTimeout :: "jsstring \<Rightarrow> app \<Rightarrow> app" where
  "invertTimeout text s =
     (let invertedText = reverseString text;
          s1 = s\<lparr>engine_calls := engine_calls s @ [text]\<rparr>;
          s2 = s1\<lparr>resultText_value := invertedText\<rparr>;
          s3 = setLoadingState False s2;
          s4 = updateButtonStates s3;
          s5 = showMessage TextInverted MsgSuccess s4
      in focus ResultText s5)"

text \<open>
  Exceptions are values: the \<open>try\<close> block of \<open>invertText\<close> gives \<open>Inr\<close> of the
  state it reaches, or \<open>Inl\<close> of what was thrown and the state at the throw. The block
  sets the loading state and registers the callback; the callback runs later, outside
  the block.
\<close>

datatype js_error = TypeError | RangeError | DOMException

definition invertText_try :: "jsstring \<Rightarrow> app \<Rightarrow> (js_error \<times> app) + app" where
  "invertText_try text s = Inr (setTimeout (InvertTimeout text) 100 (setLoadingState True s))"

definition invertText_catch :: "js_error \<Rightarrow> app \<Rightarrow> app" where
  "invertText_catch error s = showMessage InvertFailed MsgError (setLoadingState False s)"

definition invertText :: "app \<Rightarrow> app" where
  "invertText s =
     (let text = trim (inputText_value s)
      in if text = []
         then focus InputText (showMessage EnterSomeText MsgWarning s)
         else (case invertText_try text s of
                 Inr s' \<Rightarrow> s'
               | Inl (error, s') \<Rightarrow> invertText_catch error s'))"

subsection \<open>clearFields and copyResult\<close>

definition clearFields :: "app \<Rightarrow> app" where
  "clearFields s =
     (let s1 = s\<lparr>inputText_value := [], resultText_value := []\<rparr>;
          s2 = updateCharCount s1;
          s3 = updateButtonStates s2;
          s4 = focus InputText s3
      in showMessage FieldsCleared MsgSuccess s4)"

text \<open>
  \<open>copyResult\<close> writes to the system clipboard, which is outside the page. \<open>threw\<close>
  says whether the write (the clipboard API, or the fallback) threw. The fallback
  (\<open>secure_clipboard\<close> false) focuses a temporary textarea and removes it, which
  leaves no element of the page focused.
\<close>

definition copyResult :: "bool \<Rightarrow> bool \<Rightarrow> app \<Rightarrow> app" where
  "copyResult secure_clipboard threw s =
     (if resultText_value s = []
      then showMessage NothingToCopy MsgWarning s
      else (let s1 = (if secure_clipboard then s else s\<lparr>focused := None\<rparr>)
            in if threw then showMessage CopyFailed MsgError s1
               else showMessage TextCopied MsgSuccess s1))"

subsection \<open>Events\<close>

text \<open>
  \<open>init\<close> runs in the constructor. The listeners that \<open>setupEventListeners\<close>
  registers are the cases of \<open>handle\<close>: a click on each of the four buttons (a
  disabled button gets no click), an edit of either textarea followed by its
  \<open>input\<close> event, a \<open>keydown\<close> in the input, a change of the system preference,
  and a pending timer that fires.
\<close>

definition init :: "app \<Rightarrow> app" where
  "init s = updateButtonStates (updateCharCount (initializeTheme s))"

definition callback_body :: "callback \<Rightarrow> app \<Rightarrow> app" where
  "callback_body cb s =
     (case cb of
        InvertTimeout text \<Rightarrow> invertTimeout text s
      | MessageFadeOut m \<Rightarrow> setTimeout (MessageRemove m) 300 s
      | MessageRemove m \<Rightarrow>
          (case shown_message s of
             None \<Rightarrow> s
           | Some (m', _) \<Rightarrow> (if m' = m then s\<lparr>shown_message := None\<rparr> else s)))"

definition fire_timer :: "nat \<Rightarrow> app \<Rightarrow> app" where
  "fire_timer i s =
     (if i < length (timers s)
      then callback_body (snd (timers s ! i))
             (s\<lparr>timers := take i (timers s) @ drop (i + 1) (timers s)\<rparr>)
      else s)"

datatype event =
    InvertClick
  | ClearClick
  | CopyClick bool bool
  | ThemeClick
  | InputEdited jsstring
  | ResultEdited jsstring
  | KeyDown bool bool string
  | SystemThemeChange bool
  | TimerFires nat

definition handle :: "event \<Rightarrow> app \<Rightarrow> app" where
  "handle ev s =
     (case ev of
        InvertClick \<Rightarrow> (if invertButton_disabled s then s else invertText s)
      | ClearClick \<Rightarrow> (if clearButton_disabled s then s else clearFields s)
      | CopyClick secure_clipboard threw \<Rightarrow>
          (if copyButton_disabled s then s else copyResult secure_clipboard threw s)
      | ThemeClick \<Rightarrow> toggleTheme s
      | InputEdited v \<Rightarrow> updateButtonStates (updateCharCount (s\<lparr>inputText_value := v\<rparr>))
      | ResultEdited v \<Rightarrow> updateButtonStates (s\<lparr>resultText_value := v\<rparr>)
      | KeyDown ctrlKey metaKey key \<Rightarrow>
          (if (ctrlKey \<or> metaKey) \<and> key = ''Enter'' then invertText s else s)
      | SystemThemeChange matches \<Rightarrow> systemThemeChanged matches s
      | TimerFires i \<Rightarrow> fire_timer i s)"

fun run :: "event list \<Rightarrow> app \<Rightarrow> app" where
  "run [] s = s"
| "run (ev # evs) s = run evs (handle ev s)"

text \<open>
  A new session: the page is loaded again. \<open>page\<close> is the document and host as the
  load delivers them; \<open>localStorage\<close> is what the earlier session left.
\<close>

definition new_session :: "app \<Rightarrow> app \<Rightarrow> app" where
  "new_session earlier page = init (page\<lparr>localStorage := localStorage earlier\<rparr>)"

fun sessions :: "(app \<times> event list) list \<Rightarrow> app \<Rightarrow> app" where
  "sessions [] s = s"
| "sessions ((page, evs) # rest) s = sessions rest (run evs (new_session s page))"

subsection \<open>Predicates on states\<close>

text \<open>
  \<open>theme_preference\<close> is \<open>localStorage.getItem('theme-preference')\<close>. A theme value
  is 'light' or 'dark'. The stored preference is in order when it is missing or a theme
  value; the applied theme is in order when the \<open>data-theme\<close> attribute is set to a
  theme value. \<open>shows_invert_failed\<close> says that the message on display is the one
  of the \<open>catch\<close> block of \<open>invertText\<close>.
\<close>

definition theme_preference :: "app \<Rightarrow> string option" where
  "theme_preference s = localStorage s ''theme-preference''"

definition theme_value :: "string \<Rightarrow> bool" where
  "theme_value t = (t = ''light'' \<or> t = ''dark'')"

definition stored_theme_ok :: "app \<Rightarrow> bool" where
  "stored_theme_ok s = (case theme_preference s of None \<Rightarrow> True | Some t \<Rightarrow> theme_value t)"

definition applied_theme_ok :: "app \<Rightarrow> bool" where
  "applied_theme_ok s = (case data_theme s of None \<Rightarrow> False | Some t \<Rightarrow> theme_value t)"

definition shows_invert_failed :: "app \<Rightarrow> bool" where
  "shows_invert_failed s =
     (case shown_message s of None \<Rightarrow> False | Some (m, message, ty) \<Rightarrow> message = InvertFailed)"

definition theme_inv :: "app \<Rightarrow> bool" where
  "theme_inv s = (applied_theme_ok s \<and> stored_theme_ok s)"

subsection \<open>A concrete page\<close>

text \<open>
  A page for concrete runs: both fields empty, nothing shown, nothing pending, an empty
  \<open>localStorage\<close>, and a host that prefers the dark scheme.
\<close>

definition blank_page :: app where
  "blank_page =
     \<lparr>inputText_value = [], resultText_value = [], invertButton_disabled = False,
      invertButton_loading = False, invertButton_aria_label = ''Invertir texto'',
      clearButton_disabled = False, copyButton_disabled = False,
      currentCount_textContent = 0, themeToggle_aria_label = [],
      data_theme = None, meta_theme_color = None, focused = None,
      shown_message = None, next_message = 0, timers = [],
      localStorage = Map.empty, matchMedia_dark = Some True, engine_calls = []\<rparr>"

section \<open>The built-in loops compute what they should\<close>

lemma reverse_loop_length [simp]: "length (reverse_loop arr lower) = length arr"
  by (induction arr lower rule: reverse_loop.induct) (subst reverse_loop.simps, simp)

lemma reverse_loop_nth:
  "i < length arr \<Longrightarrow>
   reverse_loop arr lower ! i =
     (if lower \<le> i \<and> i < length arr - lower then arr ! (length arr - 1 - i) else arr ! i)"
proof (induction arr lower arbitrary: i rule: reverse_loop.induct)
  case (1 arr lower)
  let ?n = "length arr"
  let ?upper = "?n - lower - 1"
  let ?arr' = "arr[lower := arr ! ?upper, ?upper := arr ! lower]"
  show ?case
  proof (cases "lower < ?n div 2")
    case True
    then have room: "2 * lower + 2 \<le> ?n"
      by arith
    have step: "reverse_loop arr lower = reverse_loop ?arr' (lower + 1)"
      using True by (subst reverse_loop.simps) simp
    have at_lower: "?arr' ! lower = arr ! ?upper"
      using room by (simp add: nth_list_update)
    have at_upper: "?arr' ! ?upper = arr ! lower"
      using room by (simp add: nth_list_update)
    have elsewhere: "?arr' ! j = arr ! j" if "j \<noteq> lower" "j \<noteq> ?upper" for j
      using that by (simp add: nth_list_update)
    have ih: "reverse_loop ?arr' (lower + 1) ! i =
        (if lower + 1 \<le> i \<and> i < ?n - (lower + 1) then ?arr' ! (?n - 1 - i) else ?arr' ! i)"
      using "1.IH" [OF True, of i] "1.prems" by simp
    consider (low) "i = lower" | (upp) "i = ?upper" | (mid) "lower < i" "i < ?upper"
      | (below) "i < lower" | (above) "?upper < i"
      by arith
    then show ?thesis
    proof cases
      case low
      have "reverse_loop arr lower ! i = ?arr' ! lower"
        unfolding step ih using low by simp
      moreover have "lower \<le> i \<and> i < ?n - lower" "?n - 1 - i = ?upper"
        using low room by arith+
      ultimately show ?thesis
        using at_lower by simp
    next
      case upp
      have "\<not> i < ?n - (lower + 1)"
        using upp room by arith
      then have "reverse_loop arr lower ! i = ?arr' ! ?upper"
        unfolding step ih using upp by simp
      moreover have "lower \<le> i \<and> i < ?n - lower" "?n - 1 - i = lower"
        using upp room by arith+
      ultimately show ?thesis
        using at_upper by simp
    next
      case mid
      have inner: "lower + 1 \<le> i \<and> i < ?n - (lower + 1)"
        using mid by arith
      have outer: "lower \<le> i \<and> i < ?n - lower"
        using mid by arith
      have "?n - 1 - i \<noteq> lower" "?n - 1 - i \<noteq> ?upper"
        using mid room by arith+
      then have "?arr' ! (?n - 1 - i) = arr ! (?n - 1 - i)"
        by (rule elsewhere)
      then show ?thesis
        unfolding step ih using inner outer by simp
    next
      case below
      have inner: "\<not> lower + 1 \<le> i"
        using below by arith
      have outer: "\<not> lower \<le> i"
        using below by arith
      have "i \<noteq> lower" "i \<noteq> ?upper"
        using below room by arith+
      then have "?arr' ! i = arr ! i"
        by (rule elsewhere)
      then show ?thesis
        unfolding step ih using inner outer by simp
    next
      case above
      have inner: "\<not> i < ?n - (lower + 1)"
        using above by arith
      have outer: "\<not> i < ?n - lower"
        using above by arith
      have "i \<noteq> lower" "i \<noteq> ?upper"
        using above room by arith+
      then have "?arr' ! i = arr ! i"
        by (rule elsewhere)
      then show ?thesis
        unfolding step ih using inner outer by simp
    qed
  next
    case False
    have stop: "reverse_loop arr lower = arr"
      using False by (subst reverse_loop.simps) simp
    have "?n - 1 - i = i" if "lower \<le> i" "i < ?n - lower"
      using that False by arith
    then show ?thesis
      unfolding stop by simp
  qed
qed

lemma array_reverse_rev: "array_reverse arr = rev arr"
proof (rule nth_equalityI)
  show "length (array_reverse arr) = length (rev arr)"
    by (simp add: array_reverse_def)
next
  fix i
  assume "i < length (array_reverse arr)"
  then have i: "i < length arr"
    by (simp add: array_reverse_def)
  then show "array_reverse arr ! i = rev arr ! i"
    by (simp add: array_reverse_def reverse_loop_nth rev_nth)
qed

lemma join_loop_concat: "join_loop [] arr k R = R @ concat (drop k arr)"
proof (induction "[] :: jsstring" arr k R rule: join_loop.induct)
  case (1 arr k R)
  show ?case
  proof (cases "k < length arr")
    case True
    have "join_loop [] arr k R = join_loop [] arr (k + 1) (R @ arr ! k)"
      using True by (subst join_loop.simps) simp
    also have "\<dots> = (R @ arr ! k) @ concat (drop (k + 1) arr)"
      using "1.hyps" [OF True] by (cases "0 < k") simp_all
    also have "\<dots> = R @ concat (drop k arr)"
      using True by (simp add: Cons_nth_drop_Suc [symmetric])
    finally show ?thesis .
  next
    case False
    then show ?thesis
      by (subst join_loop.simps) simp
  qed
qed

lemma array_join_concat: "array_join arr [] = concat arr"
  by (simp add: array_join_def join_loop_concat)

lemma concat_split_rev: "concat (rev (map (\<lambda>u. [u]) xs)) = rev xs"
  by (induction xs) simp_all

lemma reverseString_rev: "reverseString str = rev str"
  by (simp add: reverseString_def split_empty_def array_reverse_rev array_join_concat
      concat_split_rev)
section \<open>trim\<close>

lemma trim_eq_Nil_iff: "trim str = [] \<longleftrightarrow> (\<forall>u\<in>set str. is_white_space u)"
proof
  assume "trim str = []"
  then have "dropWhile is_white_space (rev (dropWhile is_white_space str)) = []"
    by (simp add: trim_def)
  then have "\<forall>u\<in>set (dropWhile is_white_space str). is_white_space u"
    by simp
  moreover have "dropWhile is_white_space str \<noteq> [] \<Longrightarrow>
      \<not> is_white_space (hd (dropWhile is_white_space str))"
    by (rule hd_dropWhile)
  ultimately have "dropWhile is_white_space str = []"
    by (cases "dropWhile is_white_space str") auto
  then show "\<forall>u\<in>set str. is_white_space u"
    by simp
next
  assume "\<forall>u\<in>set str. is_white_space u"
  then have "dropWhile is_white_space str = []"
    by simp
  then show "trim str = []"
    unfolding trim_def by (simp only: rev.simps dropWhile.simps)
qed

lemma dropWhile_keeps: "xs \<noteq> [] \<Longrightarrow> \<not> P (hd xs) \<Longrightarrow> dropWhile P (xs @ ys) = xs @ ys"
  by (cases xs) simp_all

lemma trim_sandwich:
  assumes l: "\<forall>u\<in>set l. is_white_space u" and r: "\<forall>u\<in>set r. is_white_space u"
    and core: "core \<noteq> []" "\<not> is_white_space (hd core)" "\<not> is_white_space (last core)"
  shows "trim (l @ core @ r) = core"
proof -
  have "dropWhile is_white_space (l @ core @ r) = dropWhile is_white_space (core @ r)"
    using l by simp
  also have "\<dots> = core @ r"
    using core by (simp add: dropWhile_keeps)
  finally have front: "dropWhile is_white_space (l @ core @ r) = core @ r" .
  have "dropWhile is_white_space (rev r @ rev core @ []) = dropWhile is_white_space (rev core @ [])"
    by (rule dropWhile_append2) (use r in simp)
  then have "dropWhile is_white_space (rev (core @ r)) = dropWhile is_white_space (rev core @ [])"
    by (simp only: rev_append append_Nil2)
  also have "\<dots> = rev core @ []"
    using core by (intro dropWhile_keeps) (simp_all add: hd_rev)
  finally show ?thesis
    by (simp add: trim_def front)
qed

lemma trim_ends:
  assumes "trim str \<noteq> []"
  shows "\<not> is_white_space (hd (trim str)) \<and> \<not> is_white_space (last (trim str))"
proof -
  let ?d = "dropWhile is_white_space str"
  let ?e = "dropWhile is_white_space (rev ?d)"
  have e: "?e \<noteq> []"
    using assms by (simp add: trim_def)
  have d: "?d \<noteq> []"
  proof
    assume "?d = []"
    then have "?e = []"
      by (simp only: rev.simps dropWhile.simps)
    with e show False ..
  qed
  have "\<not> is_white_space (hd ?e)"
    using e by (rule hd_dropWhile)
  then have last_ok: "\<not> is_white_space (last (trim str))"
    using e by (simp add: trim_def last_rev)
  obtain zs where zs: "rev ?d = zs @ ?e"
    by (metis takeWhile_dropWhile_id)
  have "last ?e = last (rev ?d)"
    using e zs by (metis last_appendR)
  also have "\<dots> = hd ?d"
    using d by (simp add: last_rev)
  finally have "hd (trim str) = hd ?d"
    using e by (simp add: trim_def hd_rev)
  moreover have "\<not> is_white_space (hd ?d)"
    using d by (rule hd_dropWhile)
  ultimately show ?thesis
    using last_ok by simp
qed

section \<open>The two ways through invertText\<close>

lemma invertText_blank:
  "trim (inputText_value s) = [] \<Longrightarrow>
   invertText s = focus InputText (showMessage EnterSomeText MsgWarning s)"
  by (simp add: invertText_def)

lemma invertText_proceeds:
  "trim (inputText_value s) \<noteq> [] \<Longrightarrow>
   invertText s =
     setTimeout (InvertTimeout (trim (inputText_value s))) 100 (setLoadingState True s)"
  by (simp add: invertText_def invertText_try_def)

lemma fire_new_timer:
  "fire_timer (length (timers s)) (setTimeout cb d s) = callback_body cb s"
  by (simp add: fire_timer_def setTimeout_def)

lemma invertTimeout_result: "resultText_value (invertTimeout text s) = reverseString text"
  by (simp add: invertTimeout_def Let_def focus_def showMessage_def setTimeout_def
      updateButtonStates_def setLoadingState_def)

section \<open>What each method leaves alone\<close>

lemmas basic_defs = setTimeout_def showMessage_def focus_def updateThemeColor_def applyTheme_def
  updateCharCount_def updateButtonStates_def setLoadingState_def

lemma localStorage_basic [simp]:
  "localStorage (setTimeout cb d s) = localStorage s"
  "localStorage (showMessage m ty s) = localStorage s"
  "localStorage (focus el s) = localStorage s"
  "localStorage (updateThemeColor t s) = localStorage s"
  "localStorage (applyTheme t s) = localStorage s"
  "localStorage (updateCharCount s) = localStorage s"
  "localStorage (updateButtonStates s) = localStorage s"
  "localStorage (setLoadingState b s) = localStorage s"
  by (simp_all add: basic_defs Let_def)

lemma data_theme_basic [simp]:
  "data_theme (setTimeout cb d s) = data_theme s"
  "data_theme (showMessage m ty s) = data_theme s"
  "data_theme (focus el s) = data_theme s"
  "data_theme (updateThemeColor t s) = data_theme s"
  "data_theme (applyTheme t s) = Some t"
  "data_theme (updateCharCount s) = data_theme s"
  "data_theme (updateButtonStates s) = data_theme s"
  "data_theme (setLoadingState b s) = data_theme s"
  by (simp_all add: basic_defs Let_def)

lemma shown_message_basic [simp]:
  "shown_message (setTimeout cb d s) = shown_message s"
  "shown_message (showMessage m ty s) = Some (next_message s, m, ty)"
  "shown_message (focus el s) = shown_message s"
  "shown_message (updateThemeColor t s) = shown_message s"
  "shown_message (applyTheme t s) = shown_message s"
  "shown_message (updateCharCount s) = shown_message s"
  "shown_message (updateButtonStates s) = shown_message s"
  "shown_message (setLoadingState b s) = shown_message s"
  by (simp_all add: basic_defs Let_def)

lemma timers_basic [simp]:
  "timers (setTimeout cb d s) = timers s @ [(d, cb)]"
  "timers (showMessage m ty s) = timers s @ [(3000, MessageFadeOut (next_message s))]"
  "timers (focus el s) = timers s"
  "timers (setLoadingState b s) = timers s"
  by (simp_all add: basic_defs Let_def)

lemma next_message_basic [simp]:
  "next_message (setLoadingState b s) = next_message s"
  "next_message (updateButtonStates s) = next_message s"
  "next_message (updateCharCount s) = next_message s"
  "next_message (focus el s) = next_message s"
  by (simp_all add: basic_defs Let_def)

lemma invertText_cases:
  "invertText s =
     (if trim (inputText_value s) = []
      then focus InputText (showMessage EnterSomeText MsgWarning s)
      else setTimeout (InvertTimeout (trim (inputText_value s))) 100 (setLoadingState True s))"
  by (simp add: invertText_def invertText_try_def)

lemma invertText_frame [simp]:
  "localStorage (invertText s) = localStorage s"
  "data_theme (invertText s) = data_theme s"
  by (simp_all add: invertText_cases)

lemma invertTimeout_frame [simp]:
  "localStorage (invertTimeout text s) = localStorage s"
  "data_theme (invertTimeout text s) = data_theme s"
  "shown_message (invertTimeout text s) = Some (next_message s, TextInverted, MsgSuccess)"
  by (simp_all add: invertTimeout_def Let_def)

lemma clearFields_frame [simp]:
  "localStorage (clearFields s) = localStorage s"
  "data_theme (clearFields s) = data_theme s"
  "shown_message (clearFields s) = Some (next_message s, FieldsCleared, MsgSuccess)"
  by (simp_all add: clearFields_def Let_def)

lemma copyResult_frame [simp]:
  "localStorage (copyResult sc th s) = localStorage s"
  "data_theme (copyResult sc th s) = data_theme s"
  by (simp_all add: copyResult_def Let_def)

lemma copyResult_message:
  "\<exists>m message ty. shown_message (copyResult sc th s) = Some (m, message, ty) \<and>
     message \<noteq> InvertFailed"
  by (simp add: copyResult_def Let_def)

lemma callback_body_frame [simp]:
  "localStorage (callback_body cb s) = localStorage s"
  "data_theme (callback_body cb s) = data_theme s"
  by (simp_all add: callback_body_def split: callback.splits option.splits prod.splits)

lemma fire_timer_frame [simp]:
  "localStorage (fire_timer i s) = localStorage s"
  "data_theme (fire_timer i s) = data_theme s"
  by (simp_all add: fire_timer_def)

lemma toggleTheme_fields:
  "data_theme (toggleTheme s) =
     Some (if data_theme s = Some ''light'' \<or> data_theme s = None \<or> data_theme s = Some []
           then ''dark'' else ''light'')"
  "localStorage (toggleTheme s) =
     (localStorage s)(''theme-preference'' \<mapsto>
        (if data_theme s = Some ''light'' \<or> data_theme s = None \<or> data_theme s = Some []
         then ''dark'' else ''light''))"
  by (auto simp add: toggleTheme_def Let_def split: option.splits)

lemma initializeTheme_fields:
  "localStorage (initializeTheme s) = localStorage s"
  "data_theme (initializeTheme s) =
     Some (case localStorage s ''theme-preference'' of
             None \<Rightarrow> (if matchMedia_dark s = Some True then ''dark'' else ''light'')
           | Some saved \<Rightarrow>
               (if saved \<noteq> [] then saved
                else if matchMedia_dark s = Some True then ''dark'' else ''light''))"
  by (auto simp add: initializeTheme_def systemPrefersDark_def Let_def split: option.splits)

lemma init_fields:
  "localStorage (init s) = localStorage s"
  "data_theme (init s) = data_theme (initializeTheme s)"
  by (simp_all add: init_def initializeTheme_fields)

lemma systemThemeChanged_fields:
  "localStorage (systemThemeChanged b s) = localStorage s"
  "data_theme (systemThemeChanged b s) = data_theme s \<or>
   data_theme (systemThemeChanged b s) = Some ''light'' \<or>
   data_theme (systemThemeChanged b s) = Some ''dark''"
  "shown_message (systemThemeChanged b s) = shown_message s"
  by (auto simp add: systemThemeChanged_def Let_def split: option.splits)

text \<open>The definitions a concrete run of the theme methods unfolds.\<close>

lemmas theme_run_defs = handle_def basic_defs toggleTheme_def systemThemeChanged_def
  initializeTheme_def systemPrefersDark_def init_def new_session_def Let_def

section \<open>The message of the catch block is never shown\<close>

lemma handle_keeps_no_invert_failed:
  assumes "\<not> shows_invert_failed s"
  shows "\<not> shows_invert_failed (handle ev s)"
proof (cases ev)
  case InvertClick
  with assms show ?thesis
    by (simp add: handle_def shows_invert_failed_def invertText_cases)
next
  case ClearClick
  with assms show ?thesis
    by (simp add: handle_def shows_invert_failed_def)
next
  case (CopyClick sc th)
  with assms copyResult_message [of sc th s] show ?thesis
    by (auto simp add: handle_def shows_invert_failed_def)
next
  case ThemeClick
  then show ?thesis
    by (simp add: handle_def shows_invert_failed_def toggleTheme_def Let_def)
next
  case (InputEdited v)
  with assms show ?thesis
    by (simp add: handle_def shows_invert_failed_def updateCharCount_def updateButtonStates_def Let_def)
next
  case (ResultEdited v)
  with assms show ?thesis
    by (simp add: handle_def shows_invert_failed_def updateButtonStates_def Let_def)
next
  case (KeyDown c m k)
  with assms show ?thesis
    by (simp add: handle_def shows_invert_failed_def invertText_cases)
next
  case (SystemThemeChange b)
  with assms show ?thesis
    by (simp add: handle_def shows_invert_failed_def systemThemeChanged_fields)
next
  case (TimerFires i)
  with assms show ?thesis
    by (auto simp add: handle_def shows_invert_failed_def fire_timer_def callback_body_def
        split: callback.splits option.splits prod.splits if_splits)
qed

lemma run_keeps_no_invert_failed:
  "\<not> shows_invert_failed s \<Longrightarrow> \<not> shows_invert_failed (run evs s)"
  by (induction evs arbitrary: s) (simp_all add: handle_keeps_no_invert_failed)

lemma invertText_not_catch: "invertText s \<noteq> invertText_catch error s'"
proof
  assume eq: "invertText s = invertText_catch error s'"
  show False
  proof (cases "trim (inputText_value s) = []")
    case True
    then have "shown_message (invertText s) = Some (next_message s, EnterSomeText, MsgWarning)"
      by (simp add: invertText_cases)
    moreover have "shown_message (invertText_catch error s') =
        Some (next_message s', InvertFailed, MsgError)"
      by (simp add: invertText_catch_def)
    ultimately show False
      using eq by simp
  next
    case False
    then have "last (timers (invertText s)) = (100, InvertTimeout (trim (inputText_value s)))"
      by (simp add: invertText_cases)
    moreover have "last (timers (invertText_catch error s')) =
        (3000, MessageFadeOut (next_message s'))"
      by (simp add: invertText_catch_def)
    ultimately show False
      using eq by simp
  qed
qed

lemma demo_run:
  "run [KeyDown True False ''Enter'', InputEdited (js_literal ''ab''), InvertClick, TimerFires 1]
     blank_page =
   blank_page\<lparr>inputText_value := js_literal ''ab'', resultText_value := js_literal ''ba'',
     invertButton_disabled := False, invertButton_loading := False,
     invertButton_aria_label := ''Invertir texto'',
     clearButton_disabled := False, copyButton_disabled := False,
     currentCount_textContent := 2, focused := Some ResultText,
     shown_message := Some (1, TextInverted, MsgSuccess), next_message := 2,
     timers := [(3000, MessageFadeOut 0), (3000, MessageFadeOut 1)],
     engine_calls := [js_literal ''ab'']\<rparr>"
  by (simp add: handle_def invertText_cases fire_timer_def callback_body_def invertTimeout_def
      basic_defs Let_def blank_page_def js_literal_def trim_def is_white_space_def
      reverseString_rev)

section \<open>The theme across events and sessions\<close>

lemma toggleTheme_theme:
  "\<exists>v. theme_value v \<and> theme_preference (toggleTheme s) = Some v \<and>
       data_theme (toggleTheme s) = Some v"
  by (simp add: toggleTheme_fields theme_preference_def theme_value_def)

lemma new_session_fields:
  "localStorage (new_session earlier page) = localStorage earlier"
  "data_theme (new_session earlier page) =
     Some (case theme_preference earlier of
             None \<Rightarrow> (if matchMedia_dark page = Some True then ''dark'' else ''light'')
           | Some saved \<Rightarrow>
               (if saved \<noteq> [] then saved
                else if matchMedia_dark page = Some True then ''dark'' else ''light''))"
  by (simp_all add: new_session_def init_fields initializeTheme_fields theme_preference_def)

lemma handle_localStorage:
  "ev \<noteq> ThemeClick \<Longrightarrow> localStorage (handle ev s) = localStorage s"
  by (cases ev)
    (simp_all add: handle_def systemThemeChanged_fields)

lemma handle_data_theme:
  "data_theme (handle ev s) = data_theme s \<or> applied_theme_ok (handle ev s)"
proof (cases ev)
  case ThemeClick
  then show ?thesis
    by (simp add: handle_def applied_theme_ok_def theme_value_def toggleTheme_fields)
next
  case (SystemThemeChange b)
  then show ?thesis
    using systemThemeChanged_fields(2) [of b s]
    by (auto simp add: handle_def applied_theme_ok_def theme_value_def)
qed (simp_all add: handle_def)

lemma handle_stored_theme_ok:
  assumes "stored_theme_ok s"
  shows "stored_theme_ok (handle ev s)"
proof (cases "ev = ThemeClick")
  case True
  then show ?thesis
    by (simp add: handle_def stored_theme_ok_def theme_preference_def theme_value_def
        toggleTheme_fields)
next
  case False
  then show ?thesis
    using assms by (simp add: handle_localStorage stored_theme_ok_def theme_preference_def)
qed

lemma handle_theme_inv: "theme_inv s \<Longrightarrow> theme_inv (handle ev s)"
  using handle_data_theme [of ev s] handle_stored_theme_ok [of s ev]
  by (auto simp add: theme_inv_def applied_theme_ok_def)

lemma run_theme_inv: "theme_inv s \<Longrightarrow> theme_inv (run evs s)"
  by (induction evs arbitrary: s) (simp_all add: handle_theme_inv)

lemma initializeTheme_applied_ok:
  "stored_theme_ok s \<Longrightarrow> applied_theme_ok (initializeTheme s)"
  by (auto simp add: stored_theme_ok_def applied_theme_ok_def theme_preference_def
      theme_value_def initializeTheme_fields split: option.splits)

lemma new_session_theme_inv:
  "stored_theme_ok earlier \<Longrightarrow> theme_inv (new_session earlier page)"
  by (auto simp add: theme_inv_def stored_theme_ok_def applied_theme_ok_def
      theme_preference_def theme_value_def new_session_fields split: option.splits)

lemma sessions_theme_inv:
  "stored_theme_ok s \<Longrightarrow> stored_theme_ok (sessions hist s) \<and>
     (hist \<noteq> [] \<longrightarrow> applied_theme_ok (sessions hist s))"
proof (induction hist arbitrary: s rule: rev_induct)
  case Nil
  then show ?case by simp
next
  case (snoc x hist)
  obtain page evs where x: "x = (page, evs)"
    by (cases x)
  have split: "sessions (hist @ [x]) s = run evs (new_session (sessions hist s) page)"
    unfolding x by (induction hist arbitrary: s) auto
  have "stored_theme_ok (sessions hist s)"
    using snoc by simp
  then have "theme_inv (run evs (new_session (sessions hist s) page))"
    by (intro run_theme_inv new_session_theme_inv)
  then show ?case
    by (simp add: split theme_inv_def)
qed

section \<open>The reversal engine\<close>

text \<open>
  C1. For every string \<open>s\<close> and every index \<open>i\<close> with \<open>0 \<le> i < length s\<close>, the
  result \<open>r\<close> of \<open>reverseString\<close> has \<open>r[i] = s[length s - 1 - i]\<close>, counting code
  units; \<open>i\<close> is an index of \<open>r\<close> as well.
\<close>

theorem reverseString_nth:
  "i < length s \<Longrightarrow>
   i < length (reverseString s) \<and> reverseString s ! i = s ! (length s - 1 - i)"
  by (simp add: reverseString_rev rev_nth)

text \<open>The index 1 of 'hello': the result has 'l' there, which is index 3 of the input.\<close>

theorem reverseString_nth_witness:
  "(1::nat) < length (js_literal ''hello'') \<and>
   reverseString (js_literal ''hello'') ! 1 = js_literal ''hello'' ! 3 \<and>
   reverseString (js_literal ''hello'') ! 1 = 0x6C"
  using reverseString_nth [of 1 "js_literal ''hello''"]
  by (simp add: js_literal_def)

text \<open>
  C2. \<open>reverseString\<close> is an involution: reversing twice gives the string back.
\<close>

theorem reverseString_involution: "reverseString (reverseString s) = s"
  by (simp add: reverseString_rev)

text \<open>
  C3. For every string \<open>s\<close>, the empty one included, \<open>reverseString s\<close> has as many
  code units as \<open>s\<close>, holds the same code units with the same multiplicities, and is
  the exact reversal of \<open>s\<close>.
\<close>

theorem reverseString_length_mset:
  "length (reverseString s) = length s \<and> mset (reverseString s) = mset s \<and>
   reverseString s = rev s \<and> reverseString [] = []"
  by (simp add: reverseString_rev)

text \<open>
  C4. \<open>reverseString\<close> works on code units, not on characters: the result is always
  the reversal of the code units, and there is a string that is one character made of a
  surrogate pair (U+1F600, the code units \<open>0xD83D 0xDE00\<close>) whose reversal is two
  unpaired surrogates, the trailing one first.
\<close>

theorem reverseString_splits_surrogate_pair:
  "(\<forall>s. reverseString s = rev s) \<and>
   (\<exists>s. string_to_code_points s = [0x1F600] \<and>
        string_to_code_points (reverseString s) = [0xDE00, 0xD83D])"
proof
  show "\<forall>s. reverseString s = rev s"
    by (simp add: reverseString_rev)
  have "string_to_code_points [0xD83D, 0xDE00] = [0x1F600] \<and>
      string_to_code_points (reverseString [0xD83D, 0xDE00]) = [0xDE00, 0xD83D]"
    by (simp add: reverseString_rev is_leading_surrogate_def is_trailing_surrogate_def
        surrogate_pair_to_code_point_def)
  then show "\<exists>s. string_to_code_points s = [0x1F600] \<and>
      string_to_code_points (reverseString s) = [0xDE00, 0xD83D]" ..
qed

text \<open>
  C8. The test vectors: the empty string, 'a', 'hello' and '12321' are mapped to the
  empty string, 'a', 'olleh' and '12321'. Every string of one code unit and every
  palindrome is a fixed point.
\<close>

theorem reverseString_test_vectors:
  "reverseString (js_literal []) = js_literal [] \<and>
   reverseString (js_literal ''a'') = js_literal ''a'' \<and>
   reverseString (js_literal ''hello'') = js_literal ''olleh'' \<and>
   reverseString (js_literal ''12321'') = js_literal ''12321'' \<and>
   (\<forall>u. reverseString [u] = [u]) \<and>
   (rev s = s \<longrightarrow> reverseString s = s)"
  by (simp add: reverseString_rev js_literal_def)

text \<open>The palindrome '12321' is its own reversal, and \<open>reverseString\<close> returns it.\<close>

theorem reverseString_test_vectors_witness:
  "rev (js_literal ''12321'') = js_literal ''12321'' \<and>
   reverseString (js_literal ''12321'') = js_literal ''12321''"
  using reverseString_test_vectors [of "js_literal ''12321''"]
  by (simp add: js_literal_def)

section \<open>invertText\<close>

text \<open>
  C5. When the input is empty or holds only white space, \<open>invertText\<close> shows the
  warning 'Por favor, ingresa algun texto para invertir.' and returns: the result field
  keeps its value, \<open>reverseString\<close> is not called, and the only callback it leaves
  pending is the one that removes the message.
\<close>

theorem invertText_blank_input_warns:
  "list_all is_white_space (inputText_value s) \<Longrightarrow>
   invertText s = focus InputText (showMessage EnterSomeText MsgWarning s) \<and>
   shown_message (invertText s) = Some (next_message s, EnterSomeText, MsgWarning) \<and>
   resultText_value (invertText s) = resultText_value s \<and>
   engine_calls (invertText s) = engine_calls s \<and>
   timers (invertText s) = timers s @ [(3000, MessageFadeOut (next_message s))]"
proof -
  assume "list_all is_white_space (inputText_value s)"
  then have "trim (inputText_value s) = []"
    by (simp only: trim_eq_Nil_iff list_all_iff)
  then have "invertText s = focus InputText (showMessage EnterSomeText MsgWarning s)"
    by (rule invertText_blank)
  then show ?thesis
    by (simp add: focus_def showMessage_def setTimeout_def)
qed

text \<open>An input of a space, a tab and an ideographic space.\<close>

theorem invertText_blank_input_warns_witness:
  "list_all is_white_space (inputText_value (blank_page\<lparr>inputText_value := [0x20, 0x09, 0x3000]\<rparr>)) \<and>
   shown_message (invertText (blank_page\<lparr>inputText_value := [0x20, 0x09, 0x3000]\<rparr>)) = Some (0, EnterSomeText, MsgWarning) \<and>
   resultText_value (invertText (blank_page\<lparr>inputText_value := [0x20, 0x09, 0x3000]\<rparr>)) = [] \<and>
   engine_calls (invertText (blank_page\<lparr>inputText_value := [0x20, 0x09, 0x3000]\<rparr>)) = []"
  using invertText_blank_input_warns [of "blank_page\<lparr>inputText_value := [0x20, 0x09, 0x3000]\<rparr>"]
  by (simp add: blank_page_def is_white_space_def focus_def showMessage_def setTimeout_def)

text \<open>
  C9. When \<open>invertText\<close> goes on (the trimmed input is not empty), it registers the
  callback with the trimmed input, and the callback, whenever it runs, writes
  \<open>reverseString\<close> of the trimmed input to the result field. That value neither
  starts nor ends with white space. So for an input \<open>l @ core @ r\<close>, with \<open>l\<close> and
  \<open>r\<close> white space and \<open>core\<close> starting and ending with something else, the result
  field gets \<open>reverseString core\<close>: \<open>l\<close> and \<open>r\<close> are gone.
\<close>

theorem invertText_reverses_trimmed_input:
  "(trim (inputText_value s) \<noteq> [] \<longrightarrow>
      invertText s =
        setTimeout (InvertTimeout (trim (inputText_value s))) 100 (setLoadingState True s) \<and>
      resultText_value (fire_timer (length (timers s)) (invertText s)) =
        reverseString (trim (inputText_value s)) \<and>
      (\<forall>s'. resultText_value (callback_body (InvertTimeout (trim (inputText_value s))) s') =
        reverseString (trim (inputText_value s))) \<and>
      \<not> is_white_space (hd (reverseString (trim (inputText_value s)))) \<and>
      \<not> is_white_space (last (reverseString (trim (inputText_value s))))) \<and>
   (inputText_value s = l @ core @ r \<and> list_all is_white_space l \<and>
    list_all is_white_space r \<and> core \<noteq> [] \<and> \<not> is_white_space (hd core) \<and>
    \<not> is_white_space (last core) \<longrightarrow>
      resultText_value (fire_timer (length (timers s)) (invertText s)) = reverseString core)"
proof (intro conjI impI)
  assume ne: "trim (inputText_value s) \<noteq> []"
  let ?t = "trim (inputText_value s)"
  show eq: "invertText s = setTimeout (InvertTimeout ?t) 100 (setLoadingState True s)"
    using ne by (rule invertText_proceeds)
  have "timers (setLoadingState True s) = timers s"
    by (simp add: setLoadingState_def)
  then have "fire_timer (length (timers s)) (invertText s) =
      callback_body (InvertTimeout ?t) (setLoadingState True s)"
    unfolding eq using fire_new_timer [of "setLoadingState True s"] by simp
  then show "resultText_value (fire_timer (length (timers s)) (invertText s)) = reverseString ?t"
    by (simp add: callback_body_def invertTimeout_result)
  show "\<forall>s'. resultText_value (callback_body (InvertTimeout ?t) s') = reverseString ?t"
    by (simp add: callback_body_def invertTimeout_result)
  show "\<not> is_white_space (hd (reverseString ?t))"
    using ne trim_ends [OF ne] by (simp add: reverseString_rev hd_rev)
  show "\<not> is_white_space (last (reverseString ?t))"
    using ne trim_ends [OF ne] by (simp add: reverseString_rev last_rev)
next
  assume a: "inputText_value s = l @ core @ r \<and> list_all is_white_space l \<and>
    list_all is_white_space r \<and> core \<noteq> [] \<and> \<not> is_white_space (hd core) \<and>
    \<not> is_white_space (last core)"
  then have t: "trim (inputText_value s) = core"
    by (simp add: trim_sandwich list_all_iff)
  with a have eq: "invertText s = setTimeout (InvertTimeout core) 100 (setLoadingState True s)"
    using invertText_proceeds [of s] by simp
  have "timers (setLoadingState True s) = timers s"
    by (simp add: setLoadingState_def)
  then have "fire_timer (length (timers s)) (invertText s) =
      callback_body (InvertTimeout core) (setLoadingState True s)"
    unfolding eq using fire_new_timer [of "setLoadingState True s"] by simp
  then show "resultText_value (fire_timer (length (timers s)) (invertText s)) = reverseString core"
    by (simp add: callback_body_def invertTimeout_result)
qed

text \<open>The input '  ab ' gives 'ba'.\<close>

theorem invertText_reverses_trimmed_input_witness:
  "trim (inputText_value (blank_page\<lparr>inputText_value := js_literal ''  ab ''\<rparr>)) \<noteq> [] \<and>
   inputText_value (blank_page\<lparr>inputText_value := js_literal ''  ab ''\<rparr>) =
     js_literal ''  '' @ js_literal ''ab'' @ js_literal '' '' \<and>
   list_all is_white_space (js_literal ''  '') \<and>
   list_all is_white_space (js_literal '' '') \<and>
   js_literal ''ab'' \<noteq> [] \<and>
   \<not> is_white_space (hd (js_literal ''ab'')) \<and>
   \<not> is_white_space (last (js_literal ''ab'')) \<and>
   resultText_value
     (fire_timer (length (timers (blank_page\<lparr>inputText_value := js_literal ''  ab ''\<rparr>)))
       (invertText (blank_page\<lparr>inputText_value := js_literal ''  ab ''\<rparr>))) =
     js_literal ''ba''"
proof -
  let ?w = "blank_page\<lparr>inputText_value := js_literal ''  ab ''\<rparr>"
  have proceeds: "trim (inputText_value ?w) \<noteq> []"
    by (simp add: blank_page_def js_literal_def is_white_space_def trim_def)
  have shape: "inputText_value ?w = js_literal ''  '' @ js_literal ''ab'' @ js_literal '' '' \<and>
      list_all is_white_space (js_literal ''  '') \<and>
      list_all is_white_space (js_literal '' '') \<and>
      js_literal ''ab'' \<noteq> [] \<and>
      \<not> is_white_space (hd (js_literal ''ab'')) \<and>
      \<not> is_white_space (last (js_literal ''ab''))"
    by (simp add: blank_page_def js_literal_def is_white_space_def)
  have "resultText_value (fire_timer (length (timers ?w)) (invertText ?w)) =
      reverseString (js_literal ''ab'')"
    using invertText_reverses_trimmed_input [of ?w "js_literal ''  ''" "js_literal ''ab''" "js_literal '' ''"] shape
    by blast
  moreover have "reverseString (js_literal ''ab'') = js_literal ''ba''"
    by (simp add: reverseString_rev js_literal_def)
  ultimately show ?thesis
    using proceeds shape by simp
qed

text \<open>
  C6. \<open>reverseString\<close> is total: for every string it returns a string (the reversal,
  of the same length). The \<open>try\<close> block of \<open>invertText\<close> never throws, so
  \<open>invertText\<close> ends in one of its two regular ways and never in the state the
  \<open>catch\<close> block would give; and whatever events follow, the message of the
  \<open>catch\<close> block is never put on display.
\<close>

theorem invertText_catch_unreachable:
  "reverseString str = rev str \<and> length (reverseString str) = length str \<and>
   (\<exists>s'. invertText_try text s = Inr s') \<and>
   (invertText s = focus InputText (showMessage EnterSomeText MsgWarning s) \<or>
    invertText s =
      setTimeout (InvertTimeout (trim (inputText_value s))) 100 (setLoadingState True s)) \<and>
   (\<forall>error s'. invertText s \<noteq> invertText_catch error s') \<and>
   (\<not> shows_invert_failed start \<longrightarrow> \<not> shows_invert_failed (run evs start))"
proof (intro conjI)
  show "reverseString str = rev str" "length (reverseString str) = length str"
    by (simp_all add: reverseString_rev)
  show "\<exists>s'. invertText_try text s = Inr s'"
    by (simp add: invertText_try_def)
  show "invertText s = focus InputText (showMessage EnterSomeText MsgWarning s) \<or>
    invertText s =
      setTimeout (InvertTimeout (trim (inputText_value s))) 100 (setLoadingState True s)"
    by (simp add: invertText_cases)
  show "\<forall>error s'. invertText s \<noteq> invertText_catch error s'"
    by (simp add: invertText_not_catch)
  show "\<not> shows_invert_failed start \<longrightarrow> \<not> shows_invert_failed (run evs start)"
    by (simp add: run_keeps_no_invert_failed)
qed

text \<open>
  A run from the blank page: Ctrl+Enter on the empty input, typing 'ab', a click on the
  button, and the callback firing. It ends with the success message on display.
\<close>

theorem invertText_catch_unreachable_witness:
  "\<not> shows_invert_failed blank_page \<and>
   \<not> shows_invert_failed
     (run [KeyDown True False ''Enter'', InputEdited (js_literal ''ab''), InvertClick, TimerFires 1]
        blank_page) \<and>
   shown_message
     (run [KeyDown True False ''Enter'', InputEdited (js_literal ''ab''), InvertClick, TimerFires 1]
        blank_page) = Some (1, TextInverted, MsgSuccess)"
proof -
  let ?evs = "[KeyDown True False ''Enter'', InputEdited (js_literal ''ab''), InvertClick,
    TimerFires 1]"
  have start: "\<not> shows_invert_failed blank_page"
    by (simp add: shows_invert_failed_def blank_page_def)
  then have "\<not> shows_invert_failed (run ?evs blank_page)"
    using invertText_catch_unreachable [where start = blank_page and evs = ?evs] by blast
  then show ?thesis
    using start unfolding demo_run by (simp add: blank_page_def)
qed

section \<open>Theme\<close>

text \<open>
  C7. \<open>toggleTheme\<close> stores 'light' or 'dark', the value it applies; a new session
  that finds this value stored reads it back and applies exactly it, whatever the page
  and the host look like. From 'light' the stored value is 'dark', from 'dark' it is
  'light', so both values make the round trip. With nothing stored, a new session
  applies 'dark' when the host reports a dark preference and 'light' otherwise.
\<close>

theorem theme_preference_round_trip:
  "(\<exists>v. theme_value v \<and> theme_preference (toggleTheme s) = Some v \<and>
        data_theme (toggleTheme s) = Some v \<and>
        theme_preference (new_session (toggleTheme s) page) = Some v \<and>
        data_theme (new_session (toggleTheme s) page) = Some v) \<and>
   (data_theme s = Some ''light'' \<longrightarrow>
      theme_preference (toggleTheme s) = Some ''dark'' \<and>
      data_theme (new_session (toggleTheme s) page) = Some ''dark'') \<and>
   (data_theme s = Some ''dark'' \<longrightarrow>
      theme_preference (toggleTheme s) = Some ''light'' \<and>
      data_theme (new_session (toggleTheme s) page) = Some ''light'') \<and>
   (theme_preference earlier = None \<longrightarrow>
      data_theme (new_session earlier page) =
        Some (if matchMedia_dark page = Some True then ''dark'' else ''light''))"
proof (intro conjI impI)
  obtain v where v: "theme_value v" "theme_preference (toggleTheme s) = Some v"
      "data_theme (toggleTheme s) = Some v"
    using toggleTheme_theme by blast
  then have "v \<noteq> []"
    by (auto simp add: theme_value_def)
  with v have "theme_preference (new_session (toggleTheme s) page) = Some v"
      "data_theme (new_session (toggleTheme s) page) = Some v"
    by (simp_all add: new_session_fields theme_preference_def)
  with v show "\<exists>v. theme_value v \<and> theme_preference (toggleTheme s) = Some v \<and>
        data_theme (toggleTheme s) = Some v \<and>
        theme_preference (new_session (toggleTheme s) page) = Some v \<and>
        data_theme (new_session (toggleTheme s) page) = Some v"
    by blast
next
  assume "data_theme s = Some ''light''"
  then show "theme_preference (toggleTheme s) = Some ''dark''"
      "data_theme (new_session (toggleTheme s) page) = Some ''dark''"
    by (simp_all add: new_session_fields theme_preference_def toggleTheme_fields)
next
  assume "data_theme s = Some ''dark''"
  then show "theme_preference (toggleTheme s) = Some ''light''"
      "data_theme (new_session (toggleTheme s) page) = Some ''light''"
    by (simp_all add: new_session_fields theme_preference_def toggleTheme_fields)
next
  assume "theme_preference earlier = None"
  then show "data_theme (new_session earlier page) =
        Some (if matchMedia_dark page = Some True then ''dark'' else ''light'')"
    by (simp add: new_session_fields)
qed

text \<open>
  The round trip of 'dark' (read back on a host that prefers light), of 'light' (read
  back on a host that prefers dark), and the two defaults when nothing is stored.
\<close>

theorem theme_preference_round_trip_witness:
  "data_theme (blank_page\<lparr>data_theme := Some ''light''\<rparr>) = Some ''light'' \<and>
   theme_preference (toggleTheme (blank_page\<lparr>data_theme := Some ''light''\<rparr>)) = Some ''dark'' \<and>
   data_theme (new_session (toggleTheme (blank_page\<lparr>data_theme := Some ''light''\<rparr>))
     (blank_page\<lparr>matchMedia_dark := Some False\<rparr>)) = Some ''dark'' \<and>
   data_theme (blank_page\<lparr>data_theme := Some ''dark''\<rparr>) = Some ''dark'' \<and>
   theme_preference (toggleTheme (blank_page\<lparr>data_theme := Some ''dark''\<rparr>)) = Some ''light'' \<and>
   data_theme (new_session (toggleTheme (blank_page\<lparr>data_theme := Some ''dark''\<rparr>))
     blank_page) = Some ''light'' \<and>
   theme_preference blank_page = None \<and>
   data_theme (new_session blank_page blank_page) = Some ''dark'' \<and>
   data_theme (new_session blank_page (blank_page\<lparr>matchMedia_dark := Some False\<rparr>)) =
     Some ''light''"
proof -
  have light: "data_theme (blank_page\<lparr>data_theme := Some ''light''\<rparr>) = Some ''light''"
    and dark: "data_theme (blank_page\<lparr>data_theme := Some ''dark''\<rparr>) = Some ''dark''"
    and none: "theme_preference blank_page = None"
    by (simp_all add: blank_page_def theme_preference_def)
  have sys: "matchMedia_dark blank_page = Some True"
    "matchMedia_dark (blank_page\<lparr>matchMedia_dark := Some False\<rparr>) = Some False"
    by (simp_all add: blank_page_def)
  show ?thesis
    using light dark none sys
      theme_preference_round_trip [of "blank_page\<lparr>data_theme := Some ''light''\<rparr>"
        "blank_page\<lparr>matchMedia_dark := Some False\<rparr>" blank_page]
      theme_preference_round_trip [of "blank_page\<lparr>data_theme := Some ''dark''\<rparr>" blank_page
        blank_page]
      theme_preference_round_trip [of blank_page "blank_page\<lparr>matchMedia_dark := Some False\<rparr>" blank_page]
    by simp
qed

text \<open>
  C10, as amended. Provided the stored preference is missing or a theme value at the
  start (as it is whenever nothing but this program has written it), the theme is
  always one of two values: after any number of sessions and events the stored
  preference is missing or 'light' or 'dark', and in every session the applied theme
  is 'light' or 'dark' from \<open>init\<close> on. \<open>toggleTheme\<close> always applies and stores a
  theme value; the listener for the system preference applies a theme value or
  nothing; \<open>initializeTheme\<close> applies a theme value when the stored preference is
  missing or a theme value. No event but the click on the theme button changes
  \<open>localStorage\<close>, and neither does \<open>init\<close>.
\<close>

theorem theme_always_light_or_dark:
  "(stored_theme_ok s \<longrightarrow>
      stored_theme_ok (sessions hist s) \<and>
      (hist \<noteq> [] \<longrightarrow> applied_theme_ok (sessions hist s))) \<and>
   (stored_theme_ok earlier \<longrightarrow>
      applied_theme_ok (run evs (new_session earlier page)) \<and>
      stored_theme_ok (run evs (new_session earlier page))) \<and>
   (stored_theme_ok s \<longrightarrow> applied_theme_ok (initializeTheme s)) \<and>
   applied_theme_ok (toggleTheme s) \<and>
   (\<exists>v. theme_value v \<and> theme_preference (toggleTheme s) = Some v) \<and>
   (data_theme (systemThemeChanged matches s) = data_theme s \<or>
    applied_theme_ok (systemThemeChanged matches s)) \<and>
   (ev \<noteq> ThemeClick \<longrightarrow> localStorage (handle ev s) = localStorage s) \<and>
   localStorage (init s) = localStorage s \<and>
   localStorage (new_session earlier page) = localStorage earlier"
proof (intro conjI impI)
  assume "stored_theme_ok earlier"
  then have "theme_inv (run evs (new_session earlier page))"
    by (intro run_theme_inv new_session_theme_inv)
  then show "applied_theme_ok (run evs (new_session earlier page))"
      "stored_theme_ok (run evs (new_session earlier page))"
    by (simp_all add: theme_inv_def)
next
  show "applied_theme_ok (toggleTheme s)"
    by (simp add: applied_theme_ok_def theme_value_def toggleTheme_fields)
  show "\<exists>v. theme_value v \<and> theme_preference (toggleTheme s) = Some v"
    using toggleTheme_theme [of s] by blast
  show "data_theme (systemThemeChanged matches s) = data_theme s \<or>
      applied_theme_ok (systemThemeChanged matches s)"
    using systemThemeChanged_fields(2) [of matches s]
    by (auto simp add: applied_theme_ok_def theme_value_def)
  show "localStorage (init s) = localStorage s"
    by (simp add: init_fields)
  show "localStorage (new_session earlier page) = localStorage earlier"
    by (simp add: new_session_fields)
qed (simp_all add: sessions_theme_inv initializeTheme_applied_ok handle_localStorage)

text \<open>
  Two sessions (a toggle in the first; a change of the system preference in the second,
  on a host that prefers light), and one session with two toggles around a change of
  the system preference.
\<close>

theorem theme_always_light_or_dark_witness:
  "stored_theme_ok blank_page \<and>
   [(blank_page, [ThemeClick]),
    (blank_page\<lparr>matchMedia_dark := Some False\<rparr>, [SystemThemeChange True])] \<noteq> [] \<and>
   stored_theme_ok
     (sessions [(blank_page, [ThemeClick]),
        (blank_page\<lparr>matchMedia_dark := Some False\<rparr>, [SystemThemeChange True])] blank_page) \<and>
   applied_theme_ok
     (sessions [(blank_page, [ThemeClick]),
        (blank_page\<lparr>matchMedia_dark := Some False\<rparr>, [SystemThemeChange True])] blank_page) \<and>
   data_theme
     (sessions [(blank_page, [ThemeClick]),
        (blank_page\<lparr>matchMedia_dark := Some False\<rparr>, [SystemThemeChange True])] blank_page) =
     Some ''light'' \<and>
   applied_theme_ok
     (run [ThemeClick, SystemThemeChange False, ThemeClick] (new_session blank_page blank_page)) \<and>
   data_theme
     (run [ThemeClick, SystemThemeChange False, ThemeClick] (new_session blank_page blank_page)) =
     Some ''dark'' \<and>
   theme_preference
     (run [ThemeClick, SystemThemeChange False, ThemeClick] (new_session blank_page blank_page)) =
     Some ''dark'' \<and>
   applied_theme_ok (initializeTheme blank_page) \<and>
   InvertClick \<noteq> ThemeClick \<and>
   localStorage (handle InvertClick blank_page) = localStorage blank_page"
proof -
  let ?hist = "[(blank_page, [ThemeClick]),
    (blank_page\<lparr>matchMedia_dark := Some False\<rparr>, [SystemThemeChange True])]"
  let ?evs = "[ThemeClick, SystemThemeChange False, ThemeClick]"
  have ok: "stored_theme_ok blank_page"
    by (simp add: stored_theme_ok_def theme_preference_def blank_page_def)
  have hist: "?hist \<noteq> []" and ev: "InvertClick \<noteq> ThemeClick"
    by simp_all
  have two_sessions: "data_theme (sessions ?hist blank_page) = Some ''light''"
    by (simp add: theme_run_defs blank_page_def)
  have one_session:
    "data_theme (run ?evs (new_session blank_page blank_page)) = Some ''dark''"
    "theme_preference (run ?evs (new_session blank_page blank_page)) = Some ''dark''"
    by (simp_all add: theme_run_defs theme_preference_def blank_page_def)
  show ?thesis
    using ok hist ev two_sessions one_session
      theme_always_light_or_dark [of blank_page ?hist blank_page ?evs blank_page _ InvertClick]
    by blast
qed

text \<open>
  C10 as first stated, without the proviso, fails: \<open>initializeTheme\<close> does not check
  what it reads. With 'blue' stored under 'theme-preference', it sets \<open>data-theme\<close>
  to 'blue', and so does a whole new session.
\<close>

theorem theme_always_light_or_dark_counterexample:
  "theme_preference (blank_page\<lparr>localStorage := [''theme-preference'' \<mapsto> ''blue'']\<rparr>) =
     Some ''blue'' \<and>
   data_theme (initializeTheme (blank_page\<lparr>localStorage := [''theme-preference'' \<mapsto> ''blue'']\<rparr>)) =
     Some ''blue'' \<and>
   \<not> applied_theme_ok
     (initializeTheme (blank_page\<lparr>localStorage := [''theme-preference'' \<mapsto> ''blue'']\<rparr>)) \<and>
   \<not> applied_theme_ok
     (new_session (blank_page\<lparr>localStorage := [''theme-preference'' \<mapsto> ''blue'']\<rparr>)
        blank_page)"
  by (simp add: theme_run_defs theme_preference_def applied_theme_ok_def theme_value_def
      blank_page_def)

end
